theory Spec2Isabelle
  imports Complex_Main "HOL-Library.Char_ord" "HOL-Library.List_Lexorder"
begin

section \<open>JavaScript values\<close>

text \<open>
  The services receive request bodies parsed from JSON and hand values on without any
  run-time type check, so the model works on untyped values: what the TypeScript
  signatures call \<open>any\<close>, \<open>number\<close> or \<open>string\<close> is a \<open>jsval\<close> here.

  Numbers: a finite JavaScript number is modelled by the rational it denotes, so
  arithmetic is exact (binary64 rounding, overflow to Infinity, underflow to 0 and the
  sign of zero are not modelled; \<open>-0\<close> and \<open>0\<close> are one value, which no test of the
  source tells apart). Strings are ASCII.
\<close>

datatype jsnum = NaN | Fin rat | PInf | NInf

datatype jsval =
    JUndefined
  | JNull
  | JBool bool
  | JNum jsnum
  | JStr string
  | JArr "jsval list"
  | JObj "(string \<times> jsval) list"

datatype error =
    TypeError            \<comment> \<open>property read on \<open>null\<close>/\<open>undefined\<close>, iteration of a non-iterable\<close>
  | StorageError string  \<comment> \<open>raised by the storage layer, with its SQLSTATE code\<close>
  | AlreadyOpen          \<comment> \<open>\<open>Error('Ya tienes una caja abierta')\<close>\<close>
  | NoOpenRegister       \<comment> \<open>\<open>Error('No tienes una caja abierta')\<close>\<close>

abbreviation js_zero :: jsval where
  "js_zero \<equiv> JNum (Fin 0)"

text \<open>\<open>ToBoolean\<close>: the falsy values are \<open>undefined\<close>, \<open>null\<close>, \<open>false\<close>, \<open>0\<close>, \<open>NaN\<close> and \<open>''\<close>.\<close>

fun truthy :: "jsval \<Rightarrow> bool" where
  "truthy JUndefined = False"
| "truthy JNull = False"
| "truthy (JBool b) = b"
| "truthy (JNum n) = (n \<noteq> NaN \<and> n \<noteq> Fin 0)"
| "truthy (JStr s) = (s \<noteq> [])"
| "truthy (JArr xs) = True"
| "truthy (JObj kvs) = True"

definition falsy :: "jsval \<Rightarrow> bool" where
  "falsy v = (v = JUndefined \<or> v = JNull \<or> v = JBool False \<or> v = JNum NaN \<or> v = js_zero \<or> v = JStr [])"

text \<open>\<open>a || b\<close>.\<close>

definition js_or :: "jsval \<Rightarrow> jsval \<Rightarrow> jsval" where
  "js_or a b = (if truthy a then a else b)"

text \<open>\<open>n || 0\<close> for a number \<open>n\<close>.\<close>

definition num_or_zero :: "jsnum \<Rightarrow> jsnum" where
  "num_or_zero n = (if n = NaN \<or> n = Fin 0 then Fin 0 else n)"

definition isNaN :: "jsnum \<Rightarrow> bool" where
  "isNaN n = (n = NaN)"

text \<open>\<open>a + b\<close> and \<open>a - b\<close> on numbers.\<close>

fun js_add :: "jsnum \<Rightarrow> jsnum \<Rightarrow> jsnum" where
  "js_add (Fin a) (Fin b) = Fin (a + b)"
| "js_add NaN _ = NaN"
| "js_add _ NaN = NaN"
| "js_add PInf NInf = NaN"
| "js_add NInf PInf = NaN"
| "js_add PInf _ = PInf"
| "js_add _ PInf = PInf"
| "js_add NInf _ = NInf"
| "js_add _ NInf = NInf"

fun js_neg :: "jsnum \<Rightarrow> jsnum" where
  "js_neg NaN = NaN"
| "js_neg (Fin a) = Fin (- a)"
| "js_neg PInf = NInf"
| "js_neg NInf = PInf"

definition js_sub :: "jsnum \<Rightarrow> jsnum \<Rightarrow> jsnum" where
  "js_sub a b = js_add a (js_neg b)"

text \<open>\<open>n <= 0\<close>, \<open>n < 0\<close> and \<open>n > 0\<close> on numbers: every comparison with \<open>NaN\<close> is false.\<close>

fun le_zero :: "jsnum \<Rightarrow> bool" where
  "le_zero (Fin a) = (a \<le> 0)"
| "le_zero NInf = True"
| "le_zero _ = False"

fun lt_zero :: "jsnum \<Rightarrow> bool" where
  "lt_zero (Fin a) = (a < 0)"
| "lt_zero NInf = True"
| "lt_zero _ = False"

fun gt_zero :: "jsnum \<Rightarrow> bool" where
  "gt_zero (Fin a) = (0 < a)"
| "gt_zero PInf = True"
| "gt_zero _ = False"

subsection \<open>Reading numbers from strings\<close>

definition is_ws :: "char \<Rightarrow> bool" where
  "is_ws c = (c = CHR '' '' \<or> (9 \<le> (of_char c :: nat) \<and> (of_char c :: nat) \<le> 13))"

definition is_digit :: "char \<Rightarrow> bool" where
  "is_digit c = (48 \<le> (of_char c :: nat) \<and> (of_char c :: nat) \<le> 57)"

text \<open>The value of a character as a digit (\<open>a\<close> to \<open>z\<close> in either case count 10 to 35);
  36 for any other character.\<close>

definition digit_val :: "char \<Rightarrow> nat" where
  "digit_val c =
     (let n = (of_char c :: nat) in
      if 48 \<le> n \<and> n \<le> 57 then n - 48
      else if 97 \<le> n \<and> n \<le> 122 then n - 87
      else if 65 \<le> n \<and> n \<le> 90 then n - 55
      else 36)"

definition is_digit_of :: "nat \<Rightarrow> char \<Rightarrow> bool" where
  "is_digit_of radix c = (digit_val c < radix)"

definition radix_value :: "nat \<Rightarrow> string \<Rightarrow> nat" where
  "radix_value radix ds = foldl (\<lambda>a c. radix * a + digit_val c) 0 ds"

definition dec_value :: "string \<Rightarrow> nat" where
  "dec_value ds = radix_value 10 ds"

text \<open>An optional sign: whether it is \<open>-\<close>, and the rest.\<close>

fun scan_sign :: "string \<Rightarrow> bool \<times> string" where
  "scan_sign [] = (False, [])"
| "scan_sign (c # r) =
     (if c = CHR ''-'' then (True, r) else if c = CHR ''+'' then (False, r) else (False, c # r))"

text \<open>An exponent part \<open>e\<close>, \<open>E\<close> with an optional sign and at least one digit: the
  exponent and the rest; without one, exponent 0 and the input.\<close>

fun scan_exponent :: "string \<Rightarrow> int \<times> string" where
  "scan_exponent [] = (0, [])"
| "scan_exponent (c # r) =
     (if c = CHR ''e'' \<or> c = CHR ''E'' then
        (let (neg, r1) = scan_sign r; ds = takeWhile is_digit r1
         in if ds = [] then (0, c # r)
            else ((if neg then - int (dec_value ds) else int (dec_value ds)), dropWhile is_digit r1))
      else (0, c # r))"

definition scale10 :: "rat \<Rightarrow> int \<Rightarrow> rat" where
  "scale10 q e = (if 0 \<le> e then q * 10 ^ nat e else q / 10 ^ nat (- e))"

text \<open>The longest prefix that is a \<open>StrDecimalLiteral\<close> of ECMAScript (sign, \<open>Infinity\<close>
  or digits with an optional fraction and exponent), with its value and the rest of the
  string; \<open>None\<close> when no prefix is one.\<close>

definition scan_decimal :: "string \<Rightarrow> (jsnum \<times> string) option" where
  "scan_decimal s =
     (let (neg, s1) = scan_sign s in
      if take 8 s1 = ''Infinity'' then Some (if neg then NInf else PInf, drop 8 s1)
      else
        let d1 = takeWhile is_digit s1; r1 = dropWhile is_digit s1;
            dot = (r1 \<noteq> [] \<and> hd r1 = CHR ''.'');
            d2 = (if dot then takeWhile is_digit (tl r1) else []);
            r2 = (if dot then dropWhile is_digit (tl r1) else r1)
        in if d1 = [] \<and> d2 = [] then None
           else
             let (e, r3) = scan_exponent r2;
                 m = of_nat (dec_value d1) + of_nat (dec_value d2) / 10 ^ length d2
             in Some (Fin (scale10 (if neg then - m else m) e), r3))"

text \<open>\<open>parseFloat\<close> and \<open>parseInt\<close> (no radix argument) on a string.\<close>

definition parseFloat_str :: "string \<Rightarrow> jsnum" where
  "parseFloat_str s = (case scan_decimal (dropWhile is_ws s) of None \<Rightarrow> NaN | Some (v, r) \<Rightarrow> v)"

definition parseInt_str :: "string \<Rightarrow> jsnum" where
  "parseInt_str s =
     (let (neg, s1) = scan_sign (dropWhile is_ws s);
          hex = (take 2 s1 = ''0x'' \<or> take 2 s1 = ''0X'');
          ds = (if hex then takeWhile (is_digit_of 16) (drop 2 s1) else takeWhile is_digit s1);
          n = (if hex then radix_value 16 ds else dec_value ds)
      in if ds = [] then NaN else Fin (if neg then - of_nat n else of_nat n))"

subsection \<open>Reading numbers from other values\<close>

text \<open>
  \<open>parseFloat(v)\<close> and \<open>parseInt(v)\<close> first turn \<open>v\<close> into a string (\<open>ToString\<close>).
  The model does not build that string for a number; it gives the result directly:
  \<^item> \<open>undefined\<close>, \<open>null\<close>, booleans and plain objects print as \<open>undefined\<close>, \<open>null\<close>,
    \<open>true\<close>, \<open>false\<close>, \<open>[object Object]\<close>, none of which starts a number;
  \<^item> an array prints its elements separated by commas, \<open>null\<close> and \<open>undefined\<close>
    elements as the empty string, so the number read is the one read from the first
    element (a comma never continues a numeric literal);
  \<^item> a number prints so that \<open>parseFloat\<close> reads it back;
  \<^item> a number \<open>q\<close> with \<open>1e-6 \<le> |q| < 1e21\<close>, and \<open>0\<close>, prints in positional notation, so
    \<open>parseInt\<close> reads the integer part; any other finite number prints in exponent
    notation (\<open>1.5e+21\<close>, \<open>5e-7\<close>), of which \<open>parseInt\<close> reads the first digit.
\<close>

function lead_digit :: "nat \<Rightarrow> nat" where
  "lead_digit n = (if n < 10 then n else lead_digit (n div 10))"
  by pat_completeness auto
termination
  by (relation "measure id") auto

function ndigits :: "nat \<Rightarrow> nat" where
  "ndigits n = (if n < 10 then 1 else Suc (ndigits (n div 10)))"
  by pat_completeness auto
termination
  by (relation "measure id") auto

declare lead_digit.simps [simp del]
declare ndigits.simps [simp del]

text \<open>The first significant decimal digit of a positive rational.\<close>

definition first_digit :: "rat \<Rightarrow> nat" where
  "first_digit a =
     (if 1 \<le> a then lead_digit (nat \<lfloor>a\<rfloor>)
      else nat \<lfloor>a * 10 ^ ndigits (nat (\<lceil>1 / a\<rceil> - 1))\<rfloor>)"

definition parseInt_num :: "jsnum \<Rightarrow> jsnum" where
  "parseInt_num n =
     (case n of
        Fin q \<Rightarrow>
          if q = 0 then Fin 0
          else if 1 / 10 ^ 6 \<le> \<bar>q\<bar> \<and> \<bar>q\<bar> < 10 ^ 21 then
            Fin (of_int (if 0 \<le> q then \<lfloor>q\<rfloor> else \<lceil>q\<rceil>))
          else Fin (of_int (if 0 \<le> q then int (first_digit q) else - int (first_digit (- q))))
      | _ \<Rightarrow> NaN)"

fun parseFloat :: "jsval \<Rightarrow> jsnum" where
  "parseFloat (JStr s) = parseFloat_str s"
| "parseFloat (JNum n) = n"
| "parseFloat (JArr (x # xs)) = (if x = JNull \<or> x = JUndefined then NaN else parseFloat x)"
| "parseFloat _ = NaN"

fun parseInt :: "jsval \<Rightarrow> jsnum" where
  "parseInt (JStr s) = parseInt_str s"
| "parseInt (JNum n) = parseInt_num n"
| "parseInt (JArr (x # xs)) = (if x = JNull \<or> x = JUndefined then NaN else parseInt x)"
| "parseInt _ = NaN"

subsection \<open>Properties and arrays\<close>

text \<open>\<open>v.k\<close> for the property names the source reads (\<open>size\<close>, \<open>quantity\<close>, \<open>length\<close>):
  a \<open>TypeError\<close> on \<open>null\<close> and \<open>undefined\<close>, the own property of an object,
  the \<open>length\<close> of a string or an array, and \<open>undefined\<close> otherwise.\<close>

fun getProp :: "jsval \<Rightarrow> string \<Rightarrow> error + jsval" where
  "getProp JUndefined k = Inl TypeError"
| "getProp JNull k = Inl TypeError"
| "getProp (JObj kvs) k = Inr (case map_of kvs k of None \<Rightarrow> JUndefined | Some v \<Rightarrow> v)"
| "getProp (JArr xs) k = Inr (if k = ''length'' then JNum (Fin (of_nat (length xs))) else JUndefined)"
| "getProp (JStr s) k = Inr (if k = ''length'' then JNum (Fin (of_nat (length s))) else JUndefined)"
| "getProp _ k = Inr JUndefined"

text \<open>A field of the request body (destructuring \<open>const { name, ... } = req.body\<close>).\<close>

definition field :: "(string \<times> jsval) list \<Rightarrow> string \<Rightarrow> jsval" where
  "field body k = (case map_of body k of None \<Rightarrow> JUndefined | Some v \<Rightarrow> v)"

fun isArray :: "jsval \<Rightarrow> bool" where
  "isArray (JArr xs) = True"
| "isArray _ = False"

fun elems :: "jsval \<Rightarrow> jsval list" where
  "elems (JArr xs) = xs"
| "elems _ = []"

text \<open>\<open>for (const x of v)\<close>: the elements of an array, the characters of a string; any
  other value a request body can hold is not iterable.\<close>

fun iterate :: "jsval \<Rightarrow> error + jsval list" where
  "iterate (JArr xs) = Inr xs"
| "iterate (JStr s) = Inr (map (\<lambda>c. JStr [c]) s)"
| "iterate _ = Inl TypeError"

subsection \<open>Comparison with a number\<close>

text \<open>\<open>v > 0\<close> turns \<open>v\<close> into a number first (\<open>ToNumber\<close>). A string must be a numeric
  literal as a whole, white space around it apart; the empty string counts 0.\<close>

definition trim :: "string \<Rightarrow> string" where
  "trim s = rev (dropWhile is_ws (rev (dropWhile is_ws s)))"

definition radix_literal :: "nat \<Rightarrow> string \<Rightarrow> jsnum" where
  "radix_literal radix ds =
     (if ds \<noteq> [] \<and> list_all (is_digit_of radix) ds then Fin (of_nat (radix_value radix ds)) else NaN)"

definition stringToNumber :: "string \<Rightarrow> jsnum" where
  "stringToNumber s =
     (let t = trim s in
      if t = [] then Fin 0
      else if take 2 t = ''0x'' \<or> take 2 t = ''0X'' then radix_literal 16 (drop 2 t)
      else if take 2 t = ''0o'' \<or> take 2 t = ''0O'' then radix_literal 8 (drop 2 t)
      else if take 2 t = ''0b'' \<or> take 2 t = ''0B'' then radix_literal 2 (drop 2 t)
      else (case scan_decimal t of Some (v, []) \<Rightarrow> v | _ \<Rightarrow> NaN))"

text \<open>The number of the string a value prints as (see the notes on \<open>parseFloat\<close>).\<close>

fun printedNumber :: "jsval \<Rightarrow> jsnum" where
  "printedNumber (JStr s) = stringToNumber s"
| "printedNumber (JNum n) = n"
| "printedNumber (JArr []) = Fin 0"
| "printedNumber (JArr [x]) = (if x = JNull \<or> x = JUndefined then Fin 0 else printedNumber x)"
| "printedNumber _ = NaN"

fun toNumber :: "jsval \<Rightarrow> jsnum" where
  "toNumber JUndefined = NaN"
| "toNumber JNull = Fin 0"
| "toNumber (JBool b) = Fin (if b then 1 else 0)"
| "toNumber (JNum n) = n"
| "toNumber (JStr s) = stringToNumber s"
| "toNumber (JArr xs) = printedNumber (JArr xs)"
| "toNumber (JObj kvs) = NaN"

section \<open>Inventory service (inventory.service.ts)\<close>

subsection \<open>validateProductData\<close>

text \<open>The four rejection messages of \<open>validateProductData\<close>, in the order of the source:
  \<open>Campos obligatorios faltantes (name, sku, price, category, productType)\<close>,
  \<open>productType inv\<acute>alido\<close>, \<open>Precio inv\<acute>alido\<close>, \<open>Costo inv\<acute>alido\<close>.\<close>

datatype reason = MissingFields | InvalidProductType | InvalidPrice | InvalidCost

record ValidationResult =
  isValid :: bool
  error :: "reason option"

definition validateProductData :: "(string \<times> jsval) list \<Rightarrow> ValidationResult" where
  "validateProductData data =
     (let name = field data ''name''; sku = field data ''sku''; price = field data ''price'';
          category = field data ''category''; productType = field data ''productType'';
          cost = field data ''cost''
      in
        if \<not> truthy name \<or> \<not> truthy sku \<or> price = JUndefined \<or> price = JNull
           \<or> \<not> truthy category \<or> \<not> truthy productType
        then \<lparr>isValid = False, error = Some MissingFields\<rparr>
        else if productType \<notin> set [JStr ''ropa'', JStr ''otros'']
        then \<lparr>isValid = False, error = Some InvalidProductType\<rparr>
        else if isNaN (parseFloat price) \<or> le_zero (parseFloat price)
        then \<lparr>isValid = False, error = Some InvalidPrice\<rparr>
        else if cost \<noteq> JUndefined \<and> cost \<noteq> JNull \<and> cost \<noteq> JStr ''''
                \<and> (isNaN (parseFloat cost) \<or> lt_zero (parseFloat cost))
        then \<lparr>isValid = False, error = Some InvalidCost\<rparr>
        else \<lparr>isValid = True, error = None\<rparr>)"

subsection \<open>calculateTotalStock and parseCost\<close>

text \<open>The \<open>reduce\<close> of \<open>calculateTotalStock\<close>: \<open>sum + (parseInt(size.quantity) || 0)\<close> over
  the elements from left to right; reading \<open>quantity\<close> of a \<open>null\<close> or \<open>undefined\<close>
  element throws.\<close>

fun reduce_sizes :: "jsnum \<Rightarrow> jsval list \<Rightarrow> error + jsnum" where
  "reduce_sizes acc [] = Inr acc"
| "reduce_sizes acc (sz # rest) =
     (case getProp sz ''quantity'' of
        Inl e \<Rightarrow> Inl e
      | Inr q \<Rightarrow> reduce_sizes (js_add acc (num_or_zero (parseInt q))) rest)"

definition calculateTotalStock :: "jsval \<Rightarrow> jsval \<Rightarrow> jsval \<Rightarrow> error + jsval" where
  "calculateTotalStock hasSizes sizes baseStock =
     (if \<not> truthy hasSizes \<or> \<not> truthy sizes \<or> \<not> isArray sizes \<or> elems sizes = []
      then Inr (js_or baseStock js_zero)
      else (case reduce_sizes (Fin 0) (elems sizes) of
              Inl e \<Rightarrow> Inl e
            | Inr n \<Rightarrow> Inr (JNum n)))"

definition parseCost :: "jsval \<Rightarrow> jsval" where
  "parseCost cost =
     (if cost = JUndefined \<or> cost = JNull \<or> cost = JStr '''' then JNull
      else if isNaN (parseFloat cost) then JNull else JNum (parseFloat cost))"

subsection \<open>The tables\<close>

text \<open>
  Modelled from the spec: the storage capability \<open>query\<close> (\<open>db.ts\<close>) and the schema are
  not among the sources. The tables follow the data model of the spec and the column lists
  of the SQL statements in the source: \<open>products\<close> with an integer \<open>stock\<close> and a boolean
  \<open>has_sizes\<close>, \<open>product_sizes\<close> with a text \<open>size\<close> and an integer \<open>quantity\<close>. A table
  is the list of its rows, in insertion order. No uniqueness, foreign-key or check
  constraint is enforced: an operation that completes on a constrained store completes
  here with the same writes.

  A statement parameter bound to a typed column must fit the column: an integer column
  takes an integer-valued number, a boolean column a boolean, a text column a string;
  \<open>null\<close> and \<open>undefined\<close> are sent as SQL \<open>NULL\<close>, which these columns refuse (code
  \<open>23502\<close>); any other value is refused with code \<open>22P02\<close> (the conversions a real
  driver adds, such as a number printed for a text column, are outside the model). The
  remaining columns keep the value they were given, \<open>undefined\<close> as \<open>null\<close>.

  The columns named \<open>id\<close> and \<open>size\<close> are written \<open>id'\<close> and \<open>size'\<close>.
\<close>

record product_row =
  id' :: string
  name :: jsval
  sku :: jsval
  cost :: jsval
  price :: jsval
  stock :: int
  category :: jsval
  product_type :: jsval
  barcode :: jsval
  min_stock :: jsval
  has_sizes :: bool
  size_type :: jsval

record size_row =
  product_id :: string
  size' :: string
  quantity :: int

record db =
  products :: "product_row list"
  product_sizes :: "size_row list"

fun pg_integer :: "jsval \<Rightarrow> error + int" where
  "pg_integer (JNum (Fin q)) = (if of_int \<lfloor>q\<rfloor> = q then Inr \<lfloor>q\<rfloor> else Inl (StorageError ''22P02''))"
| "pg_integer JNull = Inl (StorageError ''23502'')"
| "pg_integer JUndefined = Inl (StorageError ''23502'')"
| "pg_integer _ = Inl (StorageError ''22P02'')"

fun pg_boolean :: "jsval \<Rightarrow> error + bool" where
  "pg_boolean (JBool b) = Inr b"
| "pg_boolean JNull = Inl (StorageError ''23502'')"
| "pg_boolean JUndefined = Inl (StorageError ''23502'')"
| "pg_boolean _ = Inl (StorageError ''22P02'')"

fun pg_text :: "jsval \<Rightarrow> error + string" where
  "pg_text (JStr s) = Inr s"
| "pg_text JNull = Inl (StorageError ''23502'')"
| "pg_text JUndefined = Inl (StorageError ''23502'')"
| "pg_text _ = Inl (StorageError ''22P02'')"

text \<open>A text parameter compared with a column in a \<open>WHERE\<close> clause: \<open>NULL\<close> is accepted
  (and equals nothing).\<close>

fun pg_text_param :: "jsval \<Rightarrow> error + string option" where
  "pg_text_param (JStr s) = Inr (Some s)"
| "pg_text_param JNull = Inr None"
| "pg_text_param JUndefined = Inr None"
| "pg_text_param _ = Inl (StorageError ''22P02'')"

definition pg_value :: "jsval \<Rightarrow> jsval" where
  "pg_value v = (if v = JUndefined then JNull else v)"

text \<open>\<open>SELECT SUM(quantity) ... WHERE product_id = $1\<close>: \<open>NULL\<close> when no row matches.\<close>

definition sum_quantity :: "string \<Rightarrow> db \<Rightarrow> int option" where
  "sum_quantity productId d =
     (let rows = filter (\<lambda>r. product_id r = productId) (product_sizes d)
      in if rows = [] then None else Some (sum_list (map quantity rows)))"

subsection \<open>createProduct, updateProduct, insertSizeVariants\<close>

text \<open>The argument object of \<open>createProduct\<close> and \<open>updateProduct\<close>.\<close>

record productData =
  name :: jsval
  sku :: jsval
  cost :: jsval
  price :: jsval
  stock :: jsval
  category :: jsval
  productType :: jsval
  barcode :: jsval
  minStock :: jsval
  hasSizes :: jsval
  sizeType :: jsval
  sizes :: jsval

text \<open>The body of the loop of \<open>insertSizeVariants\<close>, over the elements the iteration yields.
  \<open>parseInt(String(q))\<close> is \<open>parseInt(q)\<close>, since \<open>parseInt\<close> prints its argument itself.\<close>

fun insert_each :: "string \<Rightarrow> jsval list \<Rightarrow> db \<Rightarrow> (error + unit) \<times> db" where
  "insert_each productId [] d = (Inr (), d)"
| "insert_each productId (sz # rest) d =
     (case getProp sz ''size'' of
        Inl e \<Rightarrow> (Inl e, d)
      | Inr label \<Rightarrow>
        (case getProp sz ''quantity'' of
           Inl e \<Rightarrow> (Inl e, d)
         | Inr q \<Rightarrow>
           (case pg_text label of
              Inl e \<Rightarrow> (Inl e, d)
            | Inr l \<Rightarrow>
              (case pg_integer (JNum (num_or_zero (parseInt q))) of
                 Inl e \<Rightarrow> (Inl e, d)
               | Inr n \<Rightarrow>
                 insert_each productId rest
                   (d\<lparr>product_sizes := product_sizes d
                        @ [\<lparr>product_id = productId, size' = l, quantity = n\<rparr>]\<rparr>)))))"

definition insertSizeVariants :: "string \<Rightarrow> jsval \<Rightarrow> db \<Rightarrow> (error + unit) \<times> db" where
  "insertSizeVariants productId sizes_arg d =
     (case iterate sizes_arg of
        Inl e \<Rightarrow> (Inl e, d)
      | Inr xs \<Rightarrow> insert_each productId xs d)"

text \<open>\<open>productData.hasSizes && productData.sizes && productData.sizes.length > 0\<close>.\<close>

definition has_variants :: "productData \<Rightarrow> bool" where
  "has_variants productData =
     (truthy (hasSizes productData) \<and> truthy (sizes productData)
      \<and> (case getProp (sizes productData) ''length'' of
            Inl e \<Rightarrow> False
          | Inr n \<Rightarrow> gt_zero (toNumber n)))"

text \<open>The parameter list of the \<open>INSERT INTO products\<close> statement, as the row it stores,
  and the \<open>SET\<close> list of the \<open>UPDATE products\<close> statement, as the change it makes to a
  row; \<open>stock_col\<close> and \<open>has_sizes_col\<close> are the total stock and the flag once the store
  has accepted them.\<close>

definition inserted_row :: "string \<Rightarrow> productData \<Rightarrow> int \<Rightarrow> bool \<Rightarrow> product_row" where
  "inserted_row productId productData stock_col has_sizes_col =
     \<lparr>id' = productId,
      product_row.name = pg_value (productData.name productData),
      product_row.sku = pg_value (productData.sku productData),
      product_row.cost = pg_value (productData.cost productData),
      product_row.price = pg_value (productData.price productData),
      product_row.stock = stock_col,
      product_row.category = pg_value (productData.category productData),
      product_type = pg_value (productType productData),
      product_row.barcode = js_or (productData.barcode productData) JNull,
      min_stock = (if minStock productData = JUndefined \<or> minStock productData = JNull
                   then js_zero else minStock productData),
      has_sizes = has_sizes_col,
      size_type = (if truthy (hasSizes productData)
                   then js_or (sizeType productData) JNull else JNull)\<rparr>"

definition updated_row :: "productData \<Rightarrow> int \<Rightarrow> bool \<Rightarrow> product_row \<Rightarrow> product_row" where
  "updated_row productData stock_col has_sizes_col r =
     r\<lparr>product_row.name := pg_value (productData.name productData),
       product_row.sku := pg_value (productData.sku productData),
       product_row.cost := pg_value (productData.cost productData),
       product_row.price := pg_value (productData.price productData),
       product_row.stock := stock_col,
       product_row.category := pg_value (productData.category productData),
       product_type := pg_value (productType productData),
       product_row.barcode := js_or (productData.barcode productData) JNull,
       min_stock := (if minStock productData = JUndefined \<or> minStock productData = JNull
                     then js_zero else minStock productData),
       has_sizes := has_sizes_col,
       size_type := js_or (sizeType productData) JNull\<rparr>"

text \<open>\<open>crypto.randomUUID()\<close> is the argument \<open>productId\<close>.\<close>

definition createProduct :: "string \<Rightarrow> productData \<Rightarrow> db \<Rightarrow> (error + string) \<times> db" where
  "createProduct productId productData d =
     (case calculateTotalStock (hasSizes productData) (sizes productData)
             (productData.stock productData) of
        Inl e \<Rightarrow> (Inl e, d)
      | Inr totalStock \<Rightarrow>
        (case pg_integer totalStock of
           Inl e \<Rightarrow> (Inl e, d)
         | Inr stock_col \<Rightarrow>
           (case pg_boolean (hasSizes productData) of
              Inl e \<Rightarrow> (Inl e, d)
            | Inr has_sizes_col \<Rightarrow>
              (let d1 = d\<lparr>products := products d
                          @ [inserted_row productId productData stock_col has_sizes_col]\<rparr>
               in if has_variants productData
                  then (case insertSizeVariants productId (sizes productData) d1 of
                          (Inl e, d2) \<Rightarrow> (Inl e, d2)
                        | (Inr u, d2) \<Rightarrow> (Inr productId, d2))
                  else (Inr productId, d1)))))"

definition updateProduct :: "string \<Rightarrow> productData \<Rightarrow> db \<Rightarrow> (error + unit) \<times> db" where
  "updateProduct productId productData d =
     (case calculateTotalStock (hasSizes productData) (sizes productData)
             (productData.stock productData) of
        Inl e \<Rightarrow> (Inl e, d)
      | Inr totalStock \<Rightarrow>
        (case pg_integer totalStock of
           Inl e \<Rightarrow> (Inl e, d)
         | Inr stock_col \<Rightarrow>
           (case pg_boolean (hasSizes productData) of
              Inl e \<Rightarrow> (Inl e, d)
            | Inr has_sizes_col \<Rightarrow>
              (let d1 = d\<lparr>products :=
                          map (\<lambda>r. if id' r = productId
                                    then updated_row productData stock_col has_sizes_col r else r)
                              (products d)\<rparr>;
                   d2 = d1\<lparr>product_sizes :=
                          filter (\<lambda>r. product_id r \<noteq> productId) (product_sizes d1)\<rparr>
               in if has_variants productData
                  then insertSizeVariants productId (sizes productData) d2
                  else (Inr (), d2)))))"

subsection \<open>updateStockSimple, updateStockBySize\<close>

definition updateStockSimple :: "string \<Rightarrow> jsval \<Rightarrow> db \<Rightarrow> (error + unit) \<times> db" where
  "updateStockSimple productId quantity_arg d =
     (case pg_integer quantity_arg of
        Inl e \<Rightarrow> (Inl e, d)
      | Inr n \<Rightarrow>
        (Inr (), d\<lparr>products := map (\<lambda>r. if id' r = productId \<and> has_sizes r = False
                                        then r\<lparr>product_row.stock := product_row.stock r + n\<rparr> else r)
                                  (products d)\<rparr>))"

text \<open>The size argument is compared with a text column: a string matches the rows with
  that label, SQL \<open>NULL\<close> matches none. \<open>sizesResult.rows[0].total || 0\<close> turns the
  \<open>NULL\<close> of an empty sum into 0 (a sum that is 0 stays 0, however the driver delivers it).\<close>

definition updateStockBySize :: "string \<Rightarrow> jsval \<Rightarrow> jsval \<Rightarrow> db \<Rightarrow> (error + unit) \<times> db" where
  "updateStockBySize productId size_arg quantity_arg d =
     (case pg_integer quantity_arg of
        Inl e \<Rightarrow> (Inl e, d)
      | Inr n \<Rightarrow>
        (case pg_text_param size_arg of
           Inl e \<Rightarrow> (Inl e, d)
         | Inr label \<Rightarrow>
           (let d1 = d\<lparr>product_sizes := map (\<lambda>r. if product_id r = productId \<and> Some (size' r) = label
                                                 then r\<lparr>quantity := quantity r + n\<rparr> else r)
                                           (product_sizes d)\<rparr>;
                totalStock = (case sum_quantity productId d1 of None \<Rightarrow> 0 | Some t \<Rightarrow> t)
            in (Inr (), d1\<lparr>products := map (\<lambda>r. if id' r = productId
                                                then r\<lparr>product_row.stock := totalStock\<rparr> else r)
                                          (products d1)\<rparr>))))"

subsection \<open>mapProductFromDB, getProductWithSizes\<close>

text \<open>The \<open>Product\<close> interface. An optional number that is \<open>undefined\<close> is \<open>None\<close>; \<open>sizes\<close>
  holds the rows \<open>{size, quantity}\<close> of the second query, or \<open>None\<close> for \<open>undefined\<close>.
  \<open>ORDER BY size\<close> is modelled by the byte order of the labels.\<close>

record Product =
  id' :: string
  name :: jsval
  sku :: jsval
  cost :: "jsnum option"
  price :: jsnum
  stock :: int
  category :: jsval
  productType :: jsval
  barcode :: jsval
  minStock :: "jsnum option"
  hasSizes :: bool
  sizeType :: jsval
  sizes :: "(string \<times> int) list option"



section \<open>Inventory controller (inventory.controller.ts)\<close>

text \<open>A response is its status code and the message of its JSON body. The messages:
  the validation error, \<open>Producto creado exitosamente\<close> with the new id,
  \<open>Producto actualizado exitosamente\<close>, the three constraint messages of
  \<open>handleDatabaseError\<close>, and the default messages \<open>Error al crear producto\<close> and
  \<open>Error al actualizar producto\<close>.\<close>

datatype message =
    ValidationFailed "reason option"
  | Created string
  | Updated
  | DuplicateKey
  | NotNullViolation
  | CheckViolation
  | CreateFailed
  | UpdateFailed

datatype response = Response nat message

definition handleDatabaseError :: "error \<Rightarrow> message \<Rightarrow> response" where
  "handleDatabaseError err defaultMessage =
     (case err of
        StorageError c \<Rightarrow>
          if c = ''23505'' then Response 400 DuplicateKey
          else if c = ''23502'' then Response 400 NotNullViolation
          else if c = ''23514'' then Response 400 CheckViolation
          else Response 500 defaultMessage
      | _ \<Rightarrow> Response 500 defaultMessage)"

text \<open>The two handlers; \<open>body\<close> is \<open>req.body\<close>, \<open>productId\<close> the id the service draws
  (create) or \<open>req.params.id\<close> (update).\<close>

definition InventoryController_createProduct ::
  "string \<Rightarrow> (string \<times> jsval) list \<Rightarrow> db \<Rightarrow> response \<times> db" where
  "InventoryController_createProduct productId body d =
     (let validation = validateProductData body in
      if \<not> isValid validation then (Response 400 (ValidationFailed (error validation)), d)
      else
        (case createProduct productId
                \<lparr>productData.name = field body ''name'',
                 productData.sku = field body ''sku'',
                 productData.cost = parseCost (field body ''cost''),
                 productData.price = JNum (parseFloat (field body ''price'')),
                 productData.stock = js_or (field body ''stock'') js_zero,
                 productData.category = field body ''category'',
                 productData.productType = field body ''productType'',
                 productData.barcode = field body ''barcode'',
                 productData.minStock = field body ''minStock'',
                 productData.hasSizes = JBool (truthy (field body ''hasSizes'')),
                 productData.sizeType = field body ''sizeType'',
                 productData.sizes = field body ''sizes''\<rparr> d of
           (Inr new_id, d') \<Rightarrow> (Response 201 (Created new_id), d')
         | (Inl err, d') \<Rightarrow> (handleDatabaseError err CreateFailed, d')))"

definition InventoryController_updateProduct ::
  "string \<Rightarrow> (string \<times> jsval) list \<Rightarrow> db \<Rightarrow> response \<times> db" where
  "InventoryController_updateProduct productId body d =
     (case updateProduct productId
             \<lparr>productData.name = field body ''name'',
              productData.sku = field body ''sku'',
              productData.cost = parseCost (field body ''cost''),
              productData.price = JNum (parseFloat (field body ''price'')),
              productData.stock = js_or (field body ''stock'') js_zero,
              productData.category = field body ''category'',
              productData.productType = field body ''productType'',
              productData.barcode = field body ''barcode'',
              productData.minStock = field body ''minStock'',
              productData.hasSizes = js_or (field body ''hasSizes'') (JBool False),
              productData.sizeType = field body ''sizeType'',
              productData.sizes = field body ''sizes''\<rparr> d of
        (Inr u, d') \<Rightarrow> (Response 200 Updated, d')
      | (Inl err, d') \<Rightarrow> (handleDatabaseError err UpdateFailed, d'))"

section \<open>Cash register service (cash-register.service.ts)\<close>

subsection \<open>The tables\<close>

text \<open>
  Modelled from the spec: the tables \<open>cash_registers\<close> and \<open>cash_movements\<close>, with the
  columns the SQL statements of the source name, and the \<open>users\<close> table that
  \<open>getHistory\<close> joins (its \<open>id\<close> is taken to be a key). The closing columns are \<open>NULL\<close>
  (\<open>None\<close>) until a register is closed. \<open>NOW()\<close> is the argument \<open>now\<close>, and the ids
  drawn by \<open>crypto.randomUUID()\<close> are arguments too. The balances are numbers, as the
  signatures of the service declare them.
\<close>

datatype register_status = Abierta | Cerrada

datatype movement_type = Entrada | Salida

record cash_register_row =
  id' :: string
  user_id :: string
  opening_balance :: jsnum
  status :: register_status
  opened_at :: nat
  closed_at :: "nat option"
  closing_balance :: "jsnum option"
  expected_balance :: "jsnum option"
  difference :: "jsnum option"
  closed_by_user_id :: "string option"

record cash_movement_row =
  id' :: string
  register_id :: string
  user_id :: string
  type' :: movement_type
  amount :: jsnum
  concept :: string
  date :: nat

record cash_db =
  cash_registers :: "cash_register_row list"
  cash_movements :: "cash_movement_row list"
  users :: "(string \<times> string) list"

text \<open>\<open>SELECT * FROM cash_registers WHERE user_id = $1 AND status = 'abierta'\<close>.\<close>

definition open_registers :: "string \<Rightarrow> cash_db \<Rightarrow> cash_register_row list" where
  "open_registers userId d =
     filter (\<lambda>r. cash_register_row.user_id r = userId \<and> status r = Abierta) (cash_registers d)"

subsection \<open>openRegister, closeRegister, addMovement\<close>

definition openRegister ::
  "string \<Rightarrow> string \<Rightarrow> nat \<Rightarrow> string \<Rightarrow> jsnum \<Rightarrow> cash_db \<Rightarrow> (error + string) \<times> cash_db" where
  "openRegister registerId movementId now userId openingBalance d =
     (if open_registers userId d \<noteq> [] then (Inl AlreadyOpen, d)
      else
        (let d1 = d\<lparr>cash_registers := cash_registers d @
                    [\<lparr>cash_register_row.id' = registerId,
                      cash_register_row.user_id = userId,
                      opening_balance = openingBalance,
                      status = Abierta,
                      opened_at = now,
                      closed_at = None,
                      closing_balance = None,
                      expected_balance = None,
                      difference = None,
                      closed_by_user_id = None\<rparr>]\<rparr>;
             d2 = d1\<lparr>cash_movements := cash_movements d1 @
                    [\<lparr>cash_movement_row.id' = movementId,
                      register_id = registerId,
                      cash_movement_row.user_id = userId,
                      type' = Entrada,
                      amount = openingBalance,
                      concept = ''Apertura de caja'',
                      date = now\<rparr>]\<rparr>
         in (Inr registerId, d2)))"

definition closeRegister ::
  "nat \<Rightarrow> string \<Rightarrow> jsnum \<Rightarrow> jsnum \<Rightarrow> cash_db \<Rightarrow> (error + unit) \<times> cash_db" where
  "closeRegister now userId closingBalance expectedBalance d =
     (case open_registers userId d of
        [] \<Rightarrow> (Inl NoOpenRegister, d)
      | row # others \<Rightarrow>
          (let registerId = cash_register_row.id' row;
               diff = js_sub closingBalance expectedBalance
           in (Inr (),
               d\<lparr>cash_registers :=
                    map (\<lambda>r. if cash_register_row.id' r = registerId
                              then r\<lparr>status := Cerrada,
                                     closed_at := Some now,
                                     closing_balance := Some closingBalance,
                                     expected_balance := Some expectedBalance,
                                     difference := Some diff,
                                     closed_by_user_id := Some userId\<rparr>
                              else r)
                        (cash_registers d)\<rparr>)))"

definition addMovement ::
  "string \<Rightarrow> nat \<Rightarrow> string \<Rightarrow> movement_type \<Rightarrow> jsnum \<Rightarrow> string \<Rightarrow> cash_db
     \<Rightarrow> (error + string) \<times> cash_db" where
  "addMovement movementId now userId type_arg amount_arg concept_arg d =
     (case open_registers userId d of
        [] \<Rightarrow> (Inl NoOpenRegister, d)
      | row # others \<Rightarrow>
          (Inr movementId,
           d\<lparr>cash_movements := cash_movements d @
                [\<lparr>cash_movement_row.id' = movementId,
                  register_id = cash_register_row.id' row,
                  cash_movement_row.user_id = userId,
                  type' = type_arg,
                  amount = amount_arg,
                  concept = concept_arg,
                  date = now\<rparr>]\<rparr>))"

text \<open>A call of one of the three operations, and the store it leaves (the store a failed
  call leaves is the one it found).\<close>

datatype call =
    OpenRegister string string nat string jsnum
  | CloseRegister nat string jsnum jsnum
  | AddMovement string nat string movement_type jsnum string

fun exec :: "cash_db \<Rightarrow> call \<Rightarrow> cash_db" where
  "exec d (OpenRegister registerId movementId now userId openingBalance) =
     snd (openRegister registerId movementId now userId openingBalance d)"
| "exec d (CloseRegister now userId closingBalance expectedBalance) =
     snd (closeRegister now userId closingBalance expectedBalance d)"
| "exec d (AddMovement movementId now userId type_arg amount_arg concept_arg) =
     snd (addMovement movementId now userId type_arg amount_arg concept_arg d)"

definition run :: "cash_db \<Rightarrow> call list \<Rightarrow> cash_db" where
  "run d calls = foldl exec d calls"

subsection \<open>getCurrentRegister, getHistory\<close>

text \<open>
  The \<open>CashRegister\<close> interface; \<open>undefined\<close> and \<open>null\<close> are \<open>None\<close>.

  What a row of a query result holds for a numeric column depends on the storage layer,
  which is not among the sources: node-postgres delivers a \<open>NUMERIC\<close> column as its
  decimal text and a \<open>double precision\<close> column as a number. The rendering is the
  argument \<open>numeric_out\<close> of the two readers; SQL \<open>NULL\<close> is delivered as \<open>null\<close>.
\<close>

record CashRegister =
  id' :: string
  userId :: string
  openingBalance :: jsnum
  closingBalance :: "jsnum option"
  expectedBalance :: "jsnum option"
  difference :: "jsnum option"
  status :: register_status
  openedAt :: nat
  closedAt :: "nat option"
  openedByName :: "string option"
  closedByName :: "string option"

definition column :: "(jsnum \<Rightarrow> jsval) \<Rightarrow> jsnum option \<Rightarrow> jsval" where
  "column numeric_out v = (case v of None \<Rightarrow> JNull | Some n \<Rightarrow> numeric_out n)"

text \<open>\<open>raw ? parseFloat(raw) : undefined\<close>.\<close>

definition optional_number :: "jsval \<Rightarrow> jsnum option" where
  "optional_number raw = (if truthy raw then Some (parseFloat raw) else None)"

text \<open>\<open>ORDER BY opened_at DESC LIMIT 1\<close> over the open registers of the user.\<close>

definition getCurrentRegister :: "(jsnum \<Rightarrow> jsval) \<Rightarrow> string \<Rightarrow> cash_db \<Rightarrow> CashRegister option" where
  "getCurrentRegister numeric_out user d =
     (case rev (sort_key opened_at (open_registers user d)) of
        [] \<Rightarrow> None
      | row # others \<Rightarrow>
          Some \<lparr>CashRegister.id' = cash_register_row.id' row,
                userId = cash_register_row.user_id row,
                openingBalance = parseFloat (numeric_out (opening_balance row)),
                closingBalance = optional_number (column numeric_out (closing_balance row)),
                expectedBalance = optional_number (column numeric_out (expected_balance row)),
                CashRegister.difference =
                  optional_number (column numeric_out (cash_register_row.difference row)),
                CashRegister.status = cash_register_row.status row,
                openedAt = opened_at row,
                closedAt = closed_at row,
                openedByName = None,
                closedByName = None\<rparr>)"

text \<open>\<open>WHERE cr.status = 'cerrada' ORDER BY cr.closed_at DESC\<close>: the rows without a
  closing time first, as PostgreSQL sorts \<open>NULL\<close> in descending order.\<close>

definition history_rows :: "cash_db \<Rightarrow> cash_register_row list" where
  "history_rows d =
     (let closed = filter (\<lambda>r. cash_register_row.status r = Cerrada) (cash_registers d)
      in filter (\<lambda>r. closed_at r = None) closed
         @ rev (sort_key (\<lambda>r. case closed_at r of None \<Rightarrow> 0 | Some t \<Rightarrow> t)
                  (filter (\<lambda>r. closed_at r \<noteq> None) closed)))"

definition getHistory :: "(jsnum \<Rightarrow> jsval) \<Rightarrow> cash_db \<Rightarrow> CashRegister list" where
  "getHistory numeric_out d =
     map (\<lambda>row.
            \<lparr>CashRegister.id' = cash_register_row.id' row,
             userId = cash_register_row.user_id row,
             openingBalance = parseFloat (numeric_out (opening_balance row)),
             closingBalance = optional_number (column numeric_out (closing_balance row)),
             expectedBalance = optional_number (column numeric_out (expected_balance row)),
             CashRegister.difference =
               optional_number (column numeric_out (cash_register_row.difference row)),
             CashRegister.status = cash_register_row.status row,
             openedAt = opened_at row,
             closedAt = closed_at row,
             openedByName = map_of (users d) (cash_register_row.user_id row),
             closedByName = (case closed_by_user_id row of
                               None \<Rightarrow> None
                             | Some u \<Rightarrow> map_of (users d) u)\<rparr>)
         (history_rows d)"

text \<open>Two renderings of a numeric column: as a number, and as decimal text with two
  fraction digits (what node-postgres delivers for a \<open>NUMERIC(n,2)\<close> column).\<close>

function show_nat :: "nat \<Rightarrow> string" where
  "show_nat n = (if n < 10 then [''0123456789'' ! n]
                 else show_nat (n div 10) @ [''0123456789'' ! (n mod 10)])"
  by pat_completeness auto
termination
  by (relation "measure id") auto

declare show_nat.simps [simp del]

definition numeric_as_number :: "jsnum \<Rightarrow> jsval" where
  "numeric_as_number n = JNum n"

definition show_cents :: "int \<Rightarrow> string" where
  "show_cents c =
     (if c < 0 then ''-'' else '''') @ show_nat (nat \<bar>c\<bar> div 100) @ ''.''
     @ [''0123456789'' ! (nat \<bar>c\<bar> mod 100 div 10), ''0123456789'' ! (nat \<bar>c\<bar> mod 10)]"

definition numeric_as_text :: "jsnum \<Rightarrow> jsval" where
  "numeric_as_text n =
     (case n of
        NaN \<Rightarrow> JStr ''NaN''
      | PInf \<Rightarrow> JStr ''Infinity''
      | NInf \<Rightarrow> JStr ''-Infinity''
      | Fin q \<Rightarrow> JStr (show_cents \<lfloor>q * 100 + 1 / 2\<rfloor>))"

section \<open>Notions used to state the properties\<close>


text \<open>The integer one element of a variant list adds to the total stock.\<close>

definition counted :: "jsval \<Rightarrow> int" where
  "counted x =
     (case getProp x ''quantity'' of
        Inl e \<Rightarrow> 0
      | Inr q \<Rightarrow> (case parseInt q of Fin r \<Rightarrow> \<lfloor>r\<rfloor> | _ \<Rightarrow> 0))"

text \<open>The sum of the quantities of the variant rows of a product.\<close>

definition variant_total :: "string \<Rightarrow> db \<Rightarrow> int" where
  "variant_total productId d =
     sum_list (map quantity (filter (\<lambda>r. product_id r = productId) (product_sizes d)))"




text \<open>The rows \<open>insertSizeVariants\<close> stores for a list of elements: the label is the \<open>size\<close>
  property, the quantity what the element counts.\<close>

definition label_of :: "jsval \<Rightarrow> string" where
  "label_of x = (case getProp x ''size'' of Inr (JStr l) \<Rightarrow> l | _ \<Rightarrow> [])"

definition variant_rows :: "string \<Rightarrow> jsval list \<Rightarrow> size_row list" where
  "variant_rows productId xs =
     map (\<lambda>x. \<lparr>product_id = productId, size' = label_of x, quantity = counted x\<rparr>) xs"

text \<open>The change the first \<open>UPDATE\<close> of \<open>updateStockBySize\<close> makes to a variant row.\<close>

definition bump :: "string \<Rightarrow> string option \<Rightarrow> int \<Rightarrow> size_row \<Rightarrow> size_row" where
  "bump productId label n r =
     (if product_id r = productId \<and> Some (size' r) = label then r\<lparr>quantity := quantity r + n\<rparr> else r)"

text \<open>A well-formed variant, label and integer quantity, as the JSON object of a request and as
  the row stored for it.\<close>

definition variant_js :: "string \<times> int \<Rightarrow> jsval" where
  "variant_js v = JObj [(''size'', JStr (fst v)), (''quantity'', JNum (Fin (of_int (snd v))))]"

definition variant_row :: "string \<Rightarrow> string \<times> int \<Rightarrow> size_row" where
  "variant_row productId v = \<lparr>product_id = productId, size' = fst v, quantity = snd v\<rparr>"


definition shirt :: "(string \<times> int) list \<Rightarrow> productData" where
  "shirt vs =
     \<lparr>productData.name = JStr ''Camisa'', productData.sku = JStr ''C-1'',
      productData.cost = JNull, productData.price = JNum (Fin 20),
      productData.stock = js_zero, productData.category = JStr ''ropa'',
      productData.productType = JStr ''ropa'', productData.barcode = JUndefined,
      productData.minStock = JUndefined, productData.hasSizes = JBool True,
      productData.sizeType = JStr ''letter'', productData.sizes = JArr (map variant_js vs)\<rparr>"

definition after_create :: db where
  "after_create =
     \<lparr>products = [inserted_row ''p1'' (shirt [(''S'', 3), (''M'', 5)]) 8 True],
      product_sizes = [variant_row ''p1'' (''S'', 3), variant_row ''p1'' (''M'', 5)]\<rparr>"


definition shirt_without_variants :: productData where
  "shirt_without_variants = (shirt [])\<lparr>productData.stock := JNum (Fin 10)\<rparr>"


definition kiosk :: db where
  "kiosk =
     \<lparr>products = [(inserted_row ''p9'' shirt_without_variants 10 False)],
      product_sizes = []\<rparr>"

text \<open>The change \<open>closeRegister\<close> makes to a register row.\<close>

definition closed_row :: "nat \<Rightarrow> string \<Rightarrow> jsnum \<Rightarrow> jsnum \<Rightarrow> cash_register_row \<Rightarrow> cash_register_row" where
  "closed_row now user closing expected r =
     r\<lparr>cash_register_row.status := Cerrada,
       closed_at := Some now,
       closing_balance := Some closing,
       expected_balance := Some expected,
       cash_register_row.difference := Some (js_sub closing expected),
       closed_by_user_id := Some user\<rparr>"

text \<open>The data of the examples: a store without registers; the scenario of the spec (open with
  100, a refused second opening, an outflow of 20, closing with 78 counted against 80
  expected); a day closed with exactly the expected balance; a request body whose price
  is negative.\<close>

definition no_registers :: cash_db where
  "no_registers = \<lparr>cash_registers = [], cash_movements = [], users = [(''u1'', ''Ana'')]\<rparr>"

definition day :: "call list" where
  "day =
     [OpenRegister ''r1'' ''m1'' 1 ''u1'' (Fin 100),
      OpenRegister ''r2'' ''m2'' 2 ''u1'' (Fin 50),
      AddMovement ''m3'' 3 ''u1'' Salida (Fin 20) ''petty cash'',
      CloseRegister 4 ''u1'' (Fin 78) (Fin 80)]"

definition exact_day :: "call list" where
  "exact_day =
     [OpenRegister ''r1'' ''m1'' 1 ''u1'' (Fin 100),
      CloseRegister 2 ''u1'' (Fin 100) (Fin 100)]"

definition negative_price_body :: "(string \<times> jsval) list" where
  "negative_price_body =
     [(''name'', JStr ''Camisa''), (''sku'', JStr ''C-1''), (''price'', JNum (Fin (- 5))),
      (''category'', JStr ''ropa''), (''productType'', JStr ''ropa'')]"

section \<open>Properties of the validation layer and of the stock computation\<close>

lemma truthy_iff: "truthy v = (\<not> falsy v)"
  by (cases v) (auto simp: falsy_def)



lemma floor_rat_numeral: "\<lfloor>(numeral a / numeral b :: rat)\<rfloor> = numeral a div numeral b"
  using floor_divide_of_int_eq [of "numeral a" "numeral b", where ?'a = rat] by simp





subsection \<open>calculateTotalStock\<close>







lemma rat_of_int_bounds:
  assumes "\<bar>k\<bar> < 10 ^ 21"
  shows "\<bar>of_int k :: rat\<bar> < 10 ^ 21" and "k \<noteq> 0 \<Longrightarrow> (1 / 10 ^ 6 :: rat) \<le> \<bar>of_int k\<bar>"
proof -
  have "(of_int \<bar>k\<bar> :: rat) < of_int (10 ^ 21)" using assms by (simp only: of_int_less_iff)
  then show "\<bar>of_int k :: rat\<bar> < 10 ^ 21" by simp
  assume "k \<noteq> 0"
  then have "1 \<le> \<bar>k\<bar>" by simp
  then have "(1::rat) \<le> of_int \<bar>k\<bar>" by (simp only: of_int_1_le_iff)
  then show "(1 / 10 ^ 6 :: rat) \<le> \<bar>of_int k\<bar>" by simp
qed

lemma parseInt_integer: "\<bar>k\<bar> < 10 ^ 21 \<Longrightarrow> parseInt_num (Fin (of_int k)) = Fin (of_int k)"
  using rat_of_int_bounds [of k] by (auto simp: parseInt_num_def)

lemma counted_integer:
  "map_of kvs ''quantity'' = Some (JNum (Fin (of_int k))) \<Longrightarrow> \<bar>k\<bar> < 10 ^ 21 \<Longrightarrow>
   counted (JObj kvs) = k"
  by (simp add: counted_def parseInt_integer)







text \<open>The computation is not total either: reading \<open>quantity\<close> of a \<open>null\<close> element throws.\<close>

lemma calculateTotalStock_null_element:
  "calculateTotalStock (JBool True) (JArr [JNull]) js_zero = Inl TypeError"
  by code_simp

section \<open>Properties of the inventory store\<close>






lemma sum_variant_rows: "sum_list (map quantity (variant_rows productId xs)) = sum_list (map counted xs)"
  by (simp add: variant_rows_def comp_def)

lemma filter_variant_rows_same:
  "filter (\<lambda>r. product_id r = productId) (variant_rows productId xs) = variant_rows productId xs"
  by (simp add: variant_rows_def)

lemma filter_variant_rows_other:
  "p \<noteq> productId \<Longrightarrow> filter (\<lambda>r. product_id r = p) (variant_rows productId xs) = []"
  by (induction xs) (auto simp: variant_rows_def)








lemma variant_total_append:
  "product_sizes d' = rows @ variant_rows productId xs \<Longrightarrow>
   variant_total p d'
     = sum_list (map quantity (filter (\<lambda>r. product_id r = p) rows))
       + (if p = productId then sum_list (map counted xs) else 0)"
  by (simp add: variant_total_def filter_variant_rows_same filter_variant_rows_other sum_variant_rows)

lemma inserted_row_simps [simp]:
  "product_row.id' (inserted_row productId pd s b) = productId"
  "product_row.stock (inserted_row productId pd s b) = s"
  "has_sizes (inserted_row productId pd s b) = b"
  by (simp_all add: inserted_row_def)

lemma updated_row_simps [simp]:
  "product_row.id' (updated_row pd s b r) = product_row.id' r"
  "product_row.stock (updated_row pd s b r) = s"
  "has_sizes (updated_row pd s b r) = b"
  by (simp_all add: updated_row_def)




lemma counted_variant_js: "\<bar>snd v\<bar> < 10 ^ 21 \<Longrightarrow> counted (variant_js v) = snd v"
  by (simp add: variant_js_def counted_integer)

lemma label_variant_js: "label_of (variant_js v) = fst v"
  by (simp add: variant_js_def label_of_def)

lemma variant_rows_js:
  "\<forall>v\<in>set L. \<bar>snd v\<bar> < 10 ^ 21 \<Longrightarrow>
   variant_rows productId (map variant_js L) = map (variant_row productId) L"
  by (induction L) (auto simp: variant_rows_def variant_row_def counted_variant_js label_variant_js)










lemma sum_quantity_total:
  "(case sum_quantity productId d of None \<Rightarrow> 0 | Some t \<Rightarrow> t) = variant_total productId d"
  by (simp add: sum_quantity_def variant_total_def Let_def)

lemma updateStockBySize_result:
  assumes "pg_integer q = Inr n" and "pg_text_param s = Inr label"
  shows "updateStockBySize productId s q d
     = (Inr (),
        \<lparr>products = map (\<lambda>p. if product_row.id' p = productId
                                then p\<lparr>product_row.stock :=
                                        variant_total productId
                                          (d\<lparr>product_sizes := map (bump productId label n) (product_sizes d)\<rparr>)\<rparr>
                                else p) (products d),
         product_sizes = map (bump productId label n) (product_sizes d)\<rparr>)"
  unfolding updateStockBySize_def Let_def sum_quantity_total
  by (simp add: assms bump_def [abs_def])



lemma bump_no_match:
  "\<forall>r\<in>set rows. \<not> (product_id r = productId \<and> Some (size' r) = label) \<Longrightarrow>
   map (bump productId label n) rows = rows"
  by (induction rows) (auto simp: bump_def)





lemma list_all2_map_if:
  "list_all2 (\<lambda>p p'. if P p then p' = f p else p' = p) xs (map (\<lambda>p. if P p then f p else p) xs)"
  by (induction xs) auto















text \<open>
  Claim C7. \<open>updateStockSimple(productId, n)\<close> with an integer \<open>n\<close> (negative or not)
  completes; it adds \<open>n\<close> to the stock of the rows of that product that are not
  size-tracked and changes nothing else: no other column of those rows, no size-tracked
  row, no row of another product and no variant row.
\<close>

theorem updateStockSimple_delta:
  "\<exists>d'. updateStockSimple productId (JNum (Fin (of_int n))) d = (Inr (), d')
      \<and> product_sizes d' = product_sizes d
      \<and> list_all2 (\<lambda>p p'. if product_row.id' p = productId \<and> \<not> has_sizes p
                             then p' = p\<lparr>product_row.stock := product_row.stock p + n\<rparr>
                             else p' = p)
           (products d) (products d')"
proof -
  define d' where "d' = d\<lparr>products := map (\<lambda>p. if product_row.id' p = productId \<and> \<not> has_sizes p
                             then p\<lparr>product_row.stock := product_row.stock p + n\<rparr> else p)
                           (products d)\<rparr>"
  have run: "updateStockSimple productId (JNum (Fin (of_int n))) d = (Inr (), d')"
    by (simp add: updateStockSimple_def d'_def)
  have rows: "product_sizes d' = product_sizes d"
    by (simp add: d'_def)
  have ps: "products d' = map (\<lambda>p. if product_row.id' p = productId \<and> \<not> has_sizes p
                             then p\<lparr>product_row.stock := product_row.stock p + n\<rparr> else p)
                           (products d)"
    by (simp add: d'_def)
  have prods: "list_all2 (\<lambda>p p'. if product_row.id' p = productId \<and> \<not> has_sizes p
                             then p' = p\<lparr>product_row.stock := product_row.stock p + n\<rparr>
                             else p' = p)
           (products d) (products d')"
    unfolding ps by (rule list_all2_map_if)
  show ?thesis
    by (intro exI [of _ d'] conjI) (rule run rows prods)+
qed

text \<open>
  Claim C9. \<open>updateStockBySize(productId, l, n)\<close> with a label \<open>l\<close> and an integer \<open>n\<close>
  completes; it adds \<open>n\<close> to the variant rows of the product with that label, and then
  overwrites the stock of every row of the product, size-tracked or not, with the sum of
  the quantities of its variant rows. When no variant row has the label, no variant row
  changes; when the product has no variant rows at all, its stock becomes 0.
\<close>

theorem updateStockBySize_overwrites_stock:
  "\<exists>d'. updateStockBySize productId (JStr l) (JNum (Fin (of_int n))) d = (Inr (), d')
      \<and> list_all2 (\<lambda>r r'. if product_id r = productId \<and> size' r = l
                             then r' = r\<lparr>quantity := quantity r + n\<rparr> else r' = r)
           (product_sizes d) (product_sizes d')
      \<and> list_all2 (\<lambda>p p'. if product_row.id' p = productId
                             then p' = p\<lparr>product_row.stock := variant_total productId d'\<rparr>
                             else p' = p)
           (products d) (products d')
      \<and> ((\<forall>r\<in>set (product_sizes d). \<not> (product_id r = productId \<and> size' r = l)) \<longrightarrow>
            product_sizes d' = product_sizes d)
      \<and> ((\<forall>r\<in>set (product_sizes d). product_id r \<noteq> productId) \<longrightarrow>
            list_all2 (\<lambda>p p'. if product_row.id' p = productId
                               then p' = p\<lparr>product_row.stock := 0\<rparr> else p' = p)
              (products d) (products d'))"
proof -
  define d1 where "d1 = d\<lparr>product_sizes := map (bump productId (Some l) n) (product_sizes d)\<rparr>"
  define d' where "d' = \<lparr>products = map (\<lambda>p. if product_row.id' p = productId
                                then p\<lparr>product_row.stock := variant_total productId d1\<rparr>
                                else p) (products d),
         product_sizes = map (bump productId (Some l) n) (product_sizes d)\<rparr>"
  have run: "updateStockBySize productId (JStr l) (JNum (Fin (of_int n))) d = (Inr (), d')"
    unfolding d'_def d1_def by (rule updateStockBySize_result) simp_all
  have same: "variant_total productId d' = variant_total productId d1"
    by (simp add: variant_total_def d'_def d1_def)
  have rs: "product_sizes d' = map (\<lambda>r. if product_id r = productId \<and> size' r = l
                                        then r\<lparr>quantity := quantity r + n\<rparr> else r) (product_sizes d)"
    by (simp add: d'_def bump_def [abs_def])
  have rows: "list_all2 (\<lambda>r r'. if product_id r = productId \<and> size' r = l
                             then r' = r\<lparr>quantity := quantity r + n\<rparr> else r' = r)
           (product_sizes d) (product_sizes d')"
    unfolding rs by (rule list_all2_map_if)
  have ps: "products d' = map (\<lambda>p. if product_row.id' p = productId
                                then p\<lparr>product_row.stock := variant_total productId d1\<rparr>
                                else p) (products d)"
    by (simp add: d'_def)
  have prods: "list_all2 (\<lambda>p p'. if product_row.id' p = productId
                             then p' = p\<lparr>product_row.stock := variant_total productId d'\<rparr>
                             else p' = p)
           (products d) (products d')"
    unfolding same ps by (rule list_all2_map_if)
  have nomatch: "(\<forall>r\<in>set (product_sizes d). \<not> (product_id r = productId \<and> size' r = l)) \<longrightarrow>
            product_sizes d' = product_sizes d"
    by (simp add: d'_def bump_no_match)
  have norows: "(\<forall>r\<in>set (product_sizes d). product_id r \<noteq> productId) \<longrightarrow>
            list_all2 (\<lambda>p p'. if product_row.id' p = productId
                               then p' = p\<lparr>product_row.stock := 0\<rparr> else p' = p)
              (products d) (products d')"
  proof
    assume a: "\<forall>r\<in>set (product_sizes d). product_id r \<noteq> productId"
    then have "map (bump productId (Some l) n) (product_sizes d) = product_sizes d"
      by (intro bump_no_match) simp
    with a have z: "variant_total productId d' = 0"
      by (simp add: variant_total_def d'_def filter_False)
    show "list_all2 (\<lambda>p p'. if product_row.id' p = productId
                               then p' = p\<lparr>product_row.stock := 0\<rparr> else p' = p)
              (products d) (products d')"
      using prods unfolding z .
  qed
  show ?thesis
    by (intro exI [of _ d'] conjI) (rule run rows prods nomatch norows)+
qed

text \<open>The theorem on a product that is not size-tracked (stock 10, delta -3) and on the
  size-tracked shirt (stock 8, delta 4).\<close>

theorem updateStockSimple_delta_witness:
  "map product_row.stock (products (snd (updateStockSimple ''p9'' (JNum (Fin (- 3))) kiosk))) = [7]
   \<and> map product_row.stock (products (snd (updateStockSimple ''p1'' (JNum (Fin 4)) after_create))) = [8]"
proof -
  from updateStockSimple_delta [of "''p9''" "- 3" kiosk]
  have "map product_row.stock (products (snd (updateStockSimple ''p9'' (JNum (Fin (- 3))) kiosk))) = [7]"
    by (auto simp: kiosk_def list_all2_Cons1)
  moreover from updateStockSimple_delta [of "''p1''" 4 after_create]
  have "map product_row.stock (products (snd (updateStockSimple ''p1'' (JNum (Fin 4)) after_create))) = [8]"
    by (auto simp: after_create_def list_all2_Cons1)
  ultimately show ?thesis by simp
qed

text \<open>The theorem on a product that is not size-tracked, has stock 10 and no variant rows,
  and on the shirt with a label \<open>XL\<close> that none of its variants carries.\<close>

theorem updateStockBySize_overwrites_stock_witness:
  "map product_row.stock (products (snd (updateStockBySize ''p9'' (JStr ''M'') (JNum (Fin 1)) kiosk))) = [0]
   \<and> product_sizes (snd (updateStockBySize ''p9'' (JStr ''M'') (JNum (Fin 1)) kiosk)) = []
   \<and> product_sizes (snd (updateStockBySize ''p1'' (JStr ''XL'') (JNum (Fin 1)) after_create))
       = product_sizes after_create
   \<and> map product_row.stock
       (products (snd (updateStockBySize ''p1'' (JStr ''XL'') (JNum (Fin 1)) after_create))) = [8]"
proof -
  from updateStockBySize_overwrites_stock [of "''p9''" "''M''" 1 kiosk]
  have "map product_row.stock (products (snd (updateStockBySize ''p9'' (JStr ''M'') (JNum (Fin 1)) kiosk))) = [0]
   \<and> product_sizes (snd (updateStockBySize ''p9'' (JStr ''M'') (JNum (Fin 1)) kiosk)) = []"
    by (auto simp: kiosk_def list_all2_Cons1 variant_total_def)
  moreover
  from updateStockBySize_overwrites_stock [of "''p1''" "''XL''" 1 after_create]
  have "product_sizes (snd (updateStockBySize ''p1'' (JStr ''XL'') (JNum (Fin 1)) after_create))
       = product_sizes after_create
   \<and> map product_row.stock
       (products (snd (updateStockBySize ''p1'' (JStr ''XL'') (JNum (Fin 1)) after_create))) = [8]"
    by (auto simp: after_create_def list_all2_Cons1 variant_total_def variant_row_def)
  ultimately show ?thesis by simp
qed

section \<open>Properties of the cash register service and of the product handlers\<close>

lemma open_registers_append:
  "open_registers u (d\<lparr>cash_registers := cash_registers d @ [r]\<rparr>)
     = open_registers u d
       @ (if cash_register_row.user_id r = u \<and> cash_register_row.status r = Abierta then [r] else [])"
  by (simp add: open_registers_def)

lemma openRegister_fails:
  "open_registers u d \<noteq> [] \<Longrightarrow> openRegister rid mid now u b d = (Inl AlreadyOpen, d)"
  by (simp add: openRegister_def)

lemma openRegister_succeeds:
  "open_registers u d = [] \<Longrightarrow> fst (openRegister rid mid now u b d) = Inr rid"
  by (simp add: openRegister_def Let_def)

lemma openRegister_registers:
  "cash_registers (snd (openRegister rid mid now u b d))
     = cash_registers d
       @ (if open_registers u d = [] then
            [\<lparr>cash_register_row.id' = rid, cash_register_row.user_id = u, opening_balance = b,
              cash_register_row.status = Abierta, opened_at = now, closed_at = None,
              closing_balance = None, expected_balance = None,
              cash_register_row.difference = None, closed_by_user_id = None\<rparr>]
          else [])"
  by (simp add: openRegister_def Let_def)

lemma closeRegister_registers:
  "cash_registers (snd (closeRegister now u c e d))
     = (case open_registers u d of
          [] \<Rightarrow> cash_registers d
        | r # rs \<Rightarrow> map (\<lambda>x. if cash_register_row.id' x = cash_register_row.id' r
                                then closed_row now u c e x else x) (cash_registers d))"
  by (simp add: closeRegister_def Let_def closed_row_def split: list.splits)

lemma addMovement_registers:
  "cash_registers (snd (addMovement mid now u t a c d)) = cash_registers d"
  by (simp add: addMovement_def split: list.splits)

lemma open_registers_cong:
  "cash_registers d' = cash_registers d \<Longrightarrow> open_registers u d' = open_registers u d"
  by (simp add: open_registers_def)

lemma length_filter_closed:
  "length (filter (\<lambda>x. cash_register_row.user_id x = u \<and> cash_register_row.status x = Abierta)
             (map (\<lambda>x. if P x then closed_row now v c e x else x) xs))
   \<le> length (filter (\<lambda>x. cash_register_row.user_id x = u \<and> cash_register_row.status x = Abierta) xs)"
  by (induction xs) (auto simp: closed_row_def)

lemma exec_one_open:
  assumes "\<forall>u. length (open_registers u d) \<le> 1"
  shows "length (open_registers u (exec d c)) \<le> 1"
proof (cases c)
  case (OpenRegister rid mid now v b)
  have "length (open_registers u (exec d c))
          = length (open_registers u d) + (if open_registers v d = [] \<and> v = u then 1 else 0)"
    by (auto simp: OpenRegister open_registers_def openRegister_registers)
  with assms [rule_format, of u] show ?thesis by (auto split: if_splits)
next
  case (CloseRegister now v cl ex)
  have "length (open_registers u (exec d c)) \<le> length (open_registers u d)"
    using length_filter_closed
    by (simp add: CloseRegister open_registers_def closeRegister_registers split: list.splits)
  with assms [rule_format, of u] show ?thesis by simp
next
  case (AddMovement mid now v t a co)
  with assms [rule_format, of u] show ?thesis
    by (simp add: open_registers_def addMovement_registers)
qed

lemma run_snoc: "run d (calls @ [c]) = exec (run d calls) c"
  by (simp add: run_def)

lemma run_one_open:
  "cash_registers d0 = [] \<Longrightarrow> length (open_registers u (run d0 calls)) \<le> 1"
proof (induction calls arbitrary: u rule: rev_induct)
  case Nil
  then show ?case by (simp add: run_def open_registers_def)
next
  case (snoc c calls)
  then have "\<forall>u. length (open_registers u (run d0 calls)) \<le> 1" by simp
  then show ?case unfolding run_snoc by (rule exec_one_open)
qed

lemma exec_closed_stays:
  assumes "i < length (cash_registers d)"
    and "cash_register_row.status (cash_registers d ! i) = Cerrada"
  shows "i < length (cash_registers (exec d c))
         \<and> cash_register_row.status (cash_registers (exec d c) ! i) = Cerrada"
proof (cases c)
  case (OpenRegister rid mid now v b)
  with assms show ?thesis by (simp add: openRegister_registers nth_append)
next
  case (CloseRegister now v cl ex)
  with assms show ?thesis
    by (simp add: closeRegister_registers closed_row_def split: list.splits)
next
  case (AddMovement mid now v t a co)
  with assms show ?thesis by (simp add: addMovement_registers)
qed

lemma run_closed_stays:
  "i < length (cash_registers d) \<Longrightarrow> cash_register_row.status (cash_registers d ! i) = Cerrada \<Longrightarrow>
   i < length (cash_registers (run d later))
   \<and> cash_register_row.status (cash_registers (run d later) ! i) = Cerrada"
proof (induction later rule: rev_induct)
  case Nil
  then show ?case by (simp add: run_def)
next
  case (snoc c later)
  then show ?case unfolding run_snoc using exec_closed_stays by blast
qed

text \<open>
  Claim C2. In every store reached from one without registers by any sequence of
  \<open>openRegister\<close>, \<open>closeRegister\<close> and \<open>addMovement\<close> calls (failed calls included),
  every user has at most one register with status \<open>abierta\<close>; \<open>openRegister\<close> fails
  with \<open>AlreadyOpen\<close>, changing nothing, exactly when the user has one; and a register
  that is \<open>cerrada\<close> stays so under every further sequence of calls.
\<close>

theorem one_open_register_per_user:
  "cash_registers d0 = [] \<longrightarrow>
     length (open_registers u (run d0 calls)) \<le> 1
     \<and> (open_registers u (run d0 calls) \<noteq> [] \<longrightarrow>
          openRegister rid mid now u b (run d0 calls) = (Inl AlreadyOpen, run d0 calls))
     \<and> (open_registers u (run d0 calls) = [] \<longrightarrow>
          fst (openRegister rid mid now u b (run d0 calls)) = Inr rid)
     \<and> (i < length (cash_registers (run d0 calls))
          \<and> cash_register_row.status (cash_registers (run d0 calls) ! i) = Cerrada \<longrightarrow>
          i < length (cash_registers (run (run d0 calls) later))
          \<and> cash_register_row.status (cash_registers (run (run d0 calls) later) ! i) = Cerrada)"
  using run_one_open [of d0 u calls] openRegister_fails [of u "run d0 calls" rid mid now b]
        openRegister_succeeds [of u "run d0 calls" rid mid now b]
        run_closed_stays [of i "run d0 calls" later]
  by blast

lemma after_first_open:
  "run no_registers (take 1 day)
     = \<lparr>cash_registers =
          [\<lparr>cash_register_row.id' = ''r1'', cash_register_row.user_id = ''u1'',
            opening_balance = Fin 100, cash_register_row.status = Abierta, opened_at = 1,
            closed_at = None, closing_balance = None, expected_balance = None,
            cash_register_row.difference = None, closed_by_user_id = None\<rparr>],
        cash_movements =
          [\<lparr>cash_movement_row.id' = ''m1'', register_id = ''r1'', cash_movement_row.user_id = ''u1'',
            type' = Entrada, amount = Fin 100, concept = ''Apertura de caja'', date = 1\<rparr>],
        users = [(''u1'', ''Ana'')]\<rparr>"
  by code_simp

lemma after_day:
  "map (\<lambda>r. (cash_register_row.id' r, cash_register_row.status r, cash_register_row.difference r))
     (cash_registers (run no_registers day)) = [(''r1'', Cerrada, Some (Fin (- 2)))]"
  by code_simp

text \<open>The theorem on the scenario of the spec: the first opening completes, the second is
  refused, and the closed register stays closed when the user opens a new one.\<close>

theorem one_open_register_per_user_witness:
  "length (open_registers ''u1'' (run no_registers (take 1 day))) \<le> 1
   \<and> fst (openRegister ''r1'' ''m1'' 1 ''u1'' (Fin 100) (run no_registers [])) = Inr ''r1''
   \<and> openRegister ''r2'' ''m2'' 2 ''u1'' (Fin 50) (run no_registers (take 1 day))
       = (Inl AlreadyOpen, run no_registers (take 1 day))
   \<and> cash_register_row.status (cash_registers (run (run no_registers day)
         [OpenRegister ''r3'' ''m4'' 5 ''u1'' (Fin 10)]) ! 0) = Cerrada"
proof -
  have e: "cash_registers no_registers = []" by (simp add: no_registers_def)
  have n: "open_registers ''u1'' (run no_registers []) = []"
    by (simp add: run_def open_registers_def no_registers_def)
  have o: "open_registers ''u1'' (run no_registers (take 1 day)) \<noteq> []"
    unfolding after_first_open by (simp add: open_registers_def)
  have c: "0 < length (cash_registers (run no_registers day))
           \<and> cash_register_row.status (cash_registers (run no_registers day) ! 0) = Cerrada"
    using after_day by (auto simp: map_eq_Cons_conv)
  from one_open_register_per_user
         [of no_registers "''u1''" "take 1 day" "''r2''" "''m2''" 2 "Fin 50"] e o
  have "length (open_registers ''u1'' (run no_registers (take 1 day))) \<le> 1
        \<and> openRegister ''r2'' ''m2'' 2 ''u1'' (Fin 50) (run no_registers (take 1 day))
            = (Inl AlreadyOpen, run no_registers (take 1 day))"
    by blast
  moreover from one_open_register_per_user
         [of no_registers "''u1''" "[]" "''r1''" "''m1''" 1 "Fin 100"] e n
  have "fst (openRegister ''r1'' ''m1'' 1 ''u1'' (Fin 100) (run no_registers [])) = Inr ''r1''"
    by blast
  moreover from one_open_register_per_user
         [where ?d0.0 = no_registers and calls = day and i = 0
            and later = "[OpenRegister ''r3'' ''m4'' 5 ''u1'' (Fin 10)]"] e c
  have "cash_register_row.status (cash_registers (run (run no_registers day)
         [OpenRegister ''r3'' ''m4'' 5 ''u1'' (Fin 10)]) ! 0) = Cerrada"
    by blast
  ultimately show ?thesis by blast
qed

lemma closeRegister_none:
  "open_registers u d = [] \<Longrightarrow> closeRegister now u c e d = (Inl NoOpenRegister, d)"
  by (simp add: closeRegister_def)

lemma closeRegister_some:
  "open_registers u d = r # rs \<Longrightarrow>
   closeRegister now u c e d
     = (Inr (), d\<lparr>cash_registers := map (\<lambda>x. if cash_register_row.id' x = cash_register_row.id' r
                                            then closed_row now u c e x else x) (cash_registers d)\<rparr>)"
  by (simp add: closeRegister_def Let_def closed_row_def)

lemma closeRegister_fails_iff:
  "(fst (closeRegister now u c e d) = Inl NoOpenRegister) = (open_registers u d = [])"
  by (cases "open_registers u d") (simp_all add: closeRegister_none closeRegister_some)

lemma close_then_none:
  assumes "length (open_registers u d) \<le> 1"
  shows "open_registers u (snd (closeRegister now u c e d)) = []"
proof (cases "open_registers u d")
  case Nil
  then show ?thesis by (simp add: closeRegister_none)
next
  case (Cons r rs)
  with assms have rs: "rs = []" by simp
  have "\<not> (cash_register_row.user_id y = u \<and> cash_register_row.status y = Abierta)"
    if y: "y \<in> (\<lambda>x. if cash_register_row.id' x = cash_register_row.id' r
                       then closed_row now u c e x else x) ` set (cash_registers d)" for y
  proof -
    from y obtain x where x: "x \<in> set (cash_registers d)"
      and eq: "y = (if cash_register_row.id' x = cash_register_row.id' r
                    then closed_row now u c e x else x)"
      by (rule imageE)
    show ?thesis
    proof (cases "cash_register_row.id' x = cash_register_row.id' r")
      case True
      with eq show ?thesis by (simp add: closed_row_def)
    next
      case False
      show ?thesis
      proof
        assume "cash_register_row.user_id y = u \<and> cash_register_row.status y = Abierta"
        with eq False x have "x \<in> set (open_registers u d)" by (simp add: open_registers_def)
        with Cons rs have "x = r" by simp
        with False show False by simp
      qed
    qed
  qed
  then show ?thesis
    by (simp add: closeRegister_some [OF Cons] open_registers_def filter_empty_conv)
qed

text \<open>
  Claim C3. \<open>closeRegister(userId, closingBalance, expectedBalance)\<close> fails with
  \<open>NoOpenRegister\<close> if and only if the user has no open register, and then leaves the
  store as it was. Otherwise it completes with one update of \<open>cash_registers\<close> that sets
  the row of that register to status \<open>cerrada\<close> with the closing time, the closing and
  expected balances, their difference and the closing user, and changes no other row, no
  movement and no user; the difference of two finite balances is their subtraction. In
  every store reached from one without registers, a second call right after a completed
  one fails with \<open>NoOpenRegister\<close>.
\<close>

theorem closeRegister_closes:
  "((fst (closeRegister now u c e d) = Inl NoOpenRegister) = (open_registers u d = []))
   \<and> (open_registers u d = [] \<longrightarrow> closeRegister now u c e d = (Inl NoOpenRegister, d))
   \<and> (open_registers u d = r # rs \<longrightarrow>
        (\<exists>d'. closeRegister now u c e d = (Inr (), d')
           \<and> cash_movements d' = cash_movements d \<and> users d' = users d
           \<and> list_all2
                (\<lambda>x x'. if cash_register_row.id' x = cash_register_row.id' r
                         then x' = x\<lparr>cash_register_row.status := Cerrada,
                                      closed_at := Some now,
                                      closing_balance := Some c,
                                      expected_balance := Some e,
                                      cash_register_row.difference := Some (js_sub c e),
                                      closed_by_user_id := Some u\<rparr>
                         else x' = x)
                (cash_registers d) (cash_registers d')))
   \<and> js_sub (Fin a) (Fin b) = Fin (a - b)
   \<and> (cash_registers d0 = [] \<and> fst (closeRegister now u c e (run d0 calls)) = Inr () \<longrightarrow>
        closeRegister now' u c' e' (snd (closeRegister now u c e (run d0 calls)))
          = (Inl NoOpenRegister, snd (closeRegister now u c e (run d0 calls))))"
proof (intro conjI impI)
  show "(fst (closeRegister now u c e d) = Inl NoOpenRegister) = (open_registers u d = [])"
    by (rule closeRegister_fails_iff)
next
  assume "open_registers u d = []"
  then show "closeRegister now u c e d = (Inl NoOpenRegister, d)" by (rule closeRegister_none)
next
  assume o: "open_registers u d = r # rs"
  define d' where "d' = d\<lparr>cash_registers := map (\<lambda>x. if cash_register_row.id' x = cash_register_row.id' r
                                            then closed_row now u c e x else x) (cash_registers d)\<rparr>"
  have run: "closeRegister now u c e d = (Inr (), d')"
    unfolding d'_def by (rule closeRegister_some [OF o])
  have m: "cash_movements d' = cash_movements d" and us: "users d' = users d"
    by (simp_all add: d'_def)
  have rs: "cash_registers d' = map (\<lambda>x. if cash_register_row.id' x = cash_register_row.id' r
                                            then closed_row now u c e x else x) (cash_registers d)"
    by (simp add: d'_def)
  have regs: "list_all2
                (\<lambda>x x'. if cash_register_row.id' x = cash_register_row.id' r
                         then x' = x\<lparr>cash_register_row.status := Cerrada,
                                      closed_at := Some now,
                                      closing_balance := Some c,
                                      expected_balance := Some e,
                                      cash_register_row.difference := Some (js_sub c e),
                                      closed_by_user_id := Some u\<rparr>
                         else x' = x)
                (cash_registers d) (cash_registers d')"
    unfolding rs closed_row_def by (rule list_all2_map_if)
  show "\<exists>d'. closeRegister now u c e d = (Inr (), d')
           \<and> cash_movements d' = cash_movements d \<and> users d' = users d
           \<and> list_all2
                (\<lambda>x x'. if cash_register_row.id' x = cash_register_row.id' r
                         then x' = x\<lparr>cash_register_row.status := Cerrada,
                                      closed_at := Some now,
                                      closing_balance := Some c,
                                      expected_balance := Some e,
                                      cash_register_row.difference := Some (js_sub c e),
                                      closed_by_user_id := Some u\<rparr>
                         else x' = x)
                (cash_registers d) (cash_registers d')"
    by (intro exI [of _ d'] conjI) (rule run m us regs)+
next
  show "js_sub (Fin a) (Fin b) = Fin (a - b)" by (simp add: js_sub_def)
next
  assume a: "cash_registers d0 = [] \<and> fst (closeRegister now u c e (run d0 calls)) = Inr ()"
  then have "cash_registers d0 = []" by simp
  then have "length (open_registers u (run d0 calls)) \<le> 1" by (rule run_one_open)
  then have "open_registers u (snd (closeRegister now u c e (run d0 calls))) = []"
    by (rule close_then_none)
  then show "closeRegister now' u c' e' (snd (closeRegister now u c e (run d0 calls)))
          = (Inl NoOpenRegister, snd (closeRegister now u c e (run d0 calls)))"
    by (rule closeRegister_none)
qed

lemma close_of_day:
  "fst (closeRegister 4 ''u1'' (Fin 78) (Fin 80) (run no_registers (take 3 day))) = Inr ()"
  by code_simp

lemma before_close:
  "open_registers ''u1'' (run no_registers (take 3 day))
     = [\<lparr>cash_register_row.id' = ''r1'', cash_register_row.user_id = ''u1'',
         opening_balance = Fin 100, cash_register_row.status = Abierta, opened_at = 1,
         closed_at = None, closing_balance = None, expected_balance = None,
         cash_register_row.difference = None, closed_by_user_id = None\<rparr>]"
  "cash_registers (run no_registers (take 3 day))
     = [\<lparr>cash_register_row.id' = ''r1'', cash_register_row.user_id = ''u1'',
         opening_balance = Fin 100, cash_register_row.status = Abierta, opened_at = 1,
         closed_at = None, closing_balance = None, expected_balance = None,
         cash_register_row.difference = None, closed_by_user_id = None\<rparr>]"
  by code_simp+

text \<open>The theorem on the scenario of the spec: closing with 78 against 80 stores the difference
  -2, and closing again fails, as does closing in a store without registers.\<close>

theorem closeRegister_closes_witness:
  "closeRegister 5 ''u1'' (Fin 78) (Fin 80)
       (snd (closeRegister 4 ''u1'' (Fin 78) (Fin 80) (run no_registers (take 3 day))))
     = (Inl NoOpenRegister, snd (closeRegister 4 ''u1'' (Fin 78) (Fin 80) (run no_registers (take 3 day))))
   \<and> closeRegister 1 ''u1'' (Fin 78) (Fin 80) no_registers = (Inl NoOpenRegister, no_registers)
   \<and> map (\<lambda>r. (cash_register_row.status r, closing_balance r, expected_balance r,
             cash_register_row.difference r, closed_by_user_id r, closed_at r))
     (cash_registers (snd (closeRegister 4 ''u1'' (Fin 78) (Fin 80) (run no_registers (take 3 day)))))
     = [(Cerrada, Some (Fin 78), Some (Fin 80), Some (Fin (- 2)), Some ''u1'', Some 4)]"
proof -
  have e: "cash_registers no_registers = []" "open_registers ''u1'' no_registers = []"
    by (simp_all add: no_registers_def open_registers_def)
  from closeRegister_closes
          [where ?d0.0 = no_registers and calls = "take 3 day" and now = 4 and u = "''u1''"
             and c = "Fin 78" and e = "Fin 80" and now' = 5 and c' = "Fin 78" and e' = "Fin 80"
             and d = no_registers]
        close_of_day e
  have "closeRegister 5 ''u1'' (Fin 78) (Fin 80)
       (snd (closeRegister 4 ''u1'' (Fin 78) (Fin 80) (run no_registers (take 3 day))))
     = (Inl NoOpenRegister, snd (closeRegister 4 ''u1'' (Fin 78) (Fin 80) (run no_registers (take 3 day))))"
    by simp
  moreover
  from closeRegister_closes
          [where now = 1 and u = "''u1''" and c = "Fin 78" and e = "Fin 80" and d = no_registers,
           THEN conjunct2, THEN conjunct1] e
  have "closeRegister 1 ''u1'' (Fin 78) (Fin 80) no_registers = (Inl NoOpenRegister, no_registers)"
    by simp
  moreover
  from closeRegister_closes
          [where now = 4 and u = "''u1''" and c = "Fin 78" and e = "Fin 80"
             and d = "run no_registers (take 3 day)" and rs = "[]" and a = 78 and b = 80
             and r = "\<lparr>cash_register_row.id' = ''r1'', cash_register_row.user_id = ''u1'',
         opening_balance = Fin 100, cash_register_row.status = Abierta, opened_at = 1,
         closed_at = None, closing_balance = None, expected_balance = None,
         cash_register_row.difference = None, closed_by_user_id = None\<rparr>",
           THEN conjunct2, THEN conjunct2, THEN conjunct1]
       closeRegister_closes
          [where a = 78 and b = 80, THEN conjunct2, THEN conjunct2, THEN conjunct2, THEN conjunct1]
       before_close(1)
  have "map (\<lambda>r. (cash_register_row.status r, closing_balance r, expected_balance r,
             cash_register_row.difference r, closed_by_user_id r, closed_at r))
     (cash_registers (snd (closeRegister 4 ''u1'' (Fin 78) (Fin 80) (run no_registers (take 3 day)))))
     = [(Cerrada, Some (Fin 78), Some (Fin 80), Some (Fin (- 2)), Some ''u1'', Some 4)]"
    unfolding before_close(2)
    by (auto simp: list_all2_Cons1)
  ultimately show ?thesis by simp
qed

lemma optional_number_None: "(optional_number raw = None) = falsy raw"
  by (simp add: optional_number_def truthy_iff)

lemma getCurrentRegister_row:
  assumes "getCurrentRegister numeric_out u d = Some reg"
  shows "\<exists>r\<in>set (open_registers u d).
           closingBalance reg = optional_number (column numeric_out (closing_balance r))
           \<and> expectedBalance reg = optional_number (column numeric_out (expected_balance r))
           \<and> CashRegister.difference reg
               = optional_number (column numeric_out (cash_register_row.difference r))"
proof (cases "rev (sort_key opened_at (open_registers u d))")
  case Nil
  with assms show ?thesis by (simp add: getCurrentRegister_def)
next
  case (Cons row others)
  then have "row \<in> set (rev (sort_key opened_at (open_registers u d)))" by simp
  then have "row \<in> set (open_registers u d)" by simp
  moreover from assms Cons have
    "closingBalance reg = optional_number (column numeric_out (closing_balance row))
     \<and> expectedBalance reg = optional_number (column numeric_out (expected_balance row))
     \<and> CashRegister.difference reg
         = optional_number (column numeric_out (cash_register_row.difference row))"
    by (auto simp: getCurrentRegister_def)
  ultimately show ?thesis by blast
qed

text \<open>
  Claim C10, as amended. The readers build each of \<open>closingBalance\<close>, \<open>expectedBalance\<close>
  and \<open>difference\<close> as \<open>raw ? parseFloat(raw) : undefined\<close> from the raw column value the
  storage layer delivers. The field is absent exactly when the raw value is falsy (SQL
  \<open>NULL\<close>, the number 0, \<open>NaN\<close>, the empty string), and is \<open>parseFloat(raw)\<close> otherwise:
  a column delivered as a number is absent when it is 0 and returned unchanged when it is
  not; a column delivered as text is absent only when the text is empty.
\<close>

theorem optional_balances:
  "((optional_number raw = None) = falsy raw)
   \<and> (\<not> falsy raw \<longrightarrow> optional_number raw = Some (parseFloat raw))
   \<and> optional_number (JNum (Fin q)) = (if q = 0 then None else Some (Fin q))
   \<and> optional_number (JStr s) = (if s = [] then None else Some (parseFloat_str s))
   \<and> map (\<lambda>reg. (closingBalance reg, expectedBalance reg, CashRegister.difference reg))
        (getHistory numeric_out d)
       = map (\<lambda>r. (optional_number (column numeric_out (closing_balance r)),
                   optional_number (column numeric_out (expected_balance r)),
                   optional_number (column numeric_out (cash_register_row.difference r))))
           (history_rows d)
   \<and> (getCurrentRegister numeric_out u d = Some reg \<longrightarrow>
        (\<exists>r\<in>set (open_registers u d).
           closingBalance reg = optional_number (column numeric_out (closing_balance r))
           \<and> expectedBalance reg = optional_number (column numeric_out (expected_balance r))
           \<and> CashRegister.difference reg
               = optional_number (column numeric_out (cash_register_row.difference r))))"
proof (intro conjI impI)
  show "(optional_number raw = None) = falsy raw" by (rule optional_number_None)
next
  assume "\<not> falsy raw"
  then show "optional_number raw = Some (parseFloat raw)"
    by (simp add: optional_number_def truthy_iff)
next
  show "optional_number (JNum (Fin q)) = (if q = 0 then None else Some (Fin q))"
    by (simp add: optional_number_def)
next
  show "optional_number (JStr s) = (if s = [] then None else Some (parseFloat_str s))"
    by (simp add: optional_number_def)
next
  show "map (\<lambda>reg. (closingBalance reg, expectedBalance reg, CashRegister.difference reg))
        (getHistory numeric_out d)
       = map (\<lambda>r. (optional_number (column numeric_out (closing_balance r)),
                   optional_number (column numeric_out (expected_balance r)),
                   optional_number (column numeric_out (cash_register_row.difference r))))
           (history_rows d)"
    by (simp add: getHistory_def comp_def)
next
  assume "getCurrentRegister numeric_out u d = Some reg"
  then show "\<exists>r\<in>set (open_registers u d).
           closingBalance reg = optional_number (column numeric_out (closing_balance r))
           \<and> expectedBalance reg = optional_number (column numeric_out (expected_balance r))
           \<and> CashRegister.difference reg
               = optional_number (column numeric_out (cash_register_row.difference r))"
    by (rule getCurrentRegister_row)
qed

lemma numeric_as_text_examples:
  "numeric_as_text (Fin 0) = JStr ''0.00''"
  "numeric_as_text (Fin 100) = JStr ''100.00''"
  by (simp_all add: numeric_as_text_def show_cents_def show_nat.simps floor_rat_numeral)

lemma parseFloat_str_examples:
  "parseFloat_str ''0.00'' = Fin 0"
  "parseFloat_str ''100.00'' = Fin 100"
  by code_simp+

lemma exact_day_history:
  "history_rows (run no_registers exact_day)
     = [\<lparr>cash_register_row.id' = ''r1'', cash_register_row.user_id = ''u1'',
         opening_balance = Fin 100, cash_register_row.status = Cerrada, opened_at = 1,
         closed_at = Some 2, closing_balance = Some (Fin 100), expected_balance = Some (Fin 100),
         cash_register_row.difference = Some (Fin 0), closed_by_user_id = Some ''u1''\<rparr>]"
  by code_simp

text \<open>
  Claim C10 as stated fails when the storage layer delivers a numeric column as decimal
  text: the register closed with a difference of exactly 0 is read back by \<open>getHistory\<close>
  with the difference 0, not without one, since the text \<open>0.00\<close> is truthy.
\<close>

theorem zero_difference_as_text:
  "map cash_register_row.difference (history_rows (run no_registers exact_day)) = [Some (Fin 0)]
   \<and> numeric_as_text (Fin 0) = JStr ''0.00''
   \<and> map CashRegister.difference (getHistory numeric_as_text (run no_registers exact_day))
       = [Some (Fin 0)]
   \<and> map CashRegister.difference (getHistory numeric_as_text (run no_registers exact_day))
       \<noteq> [None]"
  unfolding getHistory_def exact_day_history
  by (simp add: column_def optional_number_def numeric_as_text_examples parseFloat_str_examples)

lemma history_of_days:
  "map (\<lambda>r. (closing_balance r, expected_balance r, cash_register_row.difference r))
     (history_rows (run no_registers exact_day)) = [(Some (Fin 100), Some (Fin 100), Some (Fin 0))]"
  "map (\<lambda>r. (closing_balance r, expected_balance r, cash_register_row.difference r))
     (history_rows (run no_registers day)) = [(Some (Fin 78), Some (Fin 80), Some (Fin (- 2)))]"
  by code_simp+

lemma current_after_first_open:
  "map_option (\<lambda>reg. (closingBalance reg, expectedBalance reg, CashRegister.difference reg))
     (getCurrentRegister numeric_as_number ''u1'' (run no_registers (take 1 day)))
     = Some (None, None, None)"
  "map (\<lambda>r. (closing_balance r, expected_balance r, cash_register_row.difference r))
     (open_registers ''u1'' (run no_registers (take 1 day))) = [(None, None, None)]"
  by code_simp+

text \<open>The theorem with numeric columns delivered as numbers: in the history a difference of
  0 is absent and a difference of -2 is returned; the register that is still open has no
  difference.\<close>

theorem optional_balances_witness:
  "map CashRegister.difference (getHistory numeric_as_number (run no_registers exact_day)) = [None]
   \<and> map CashRegister.difference (getHistory numeric_as_number (run no_registers day))
       = [Some (Fin (- 2))]
   \<and> optional_number (JNum (Fin (- 2))) = Some (Fin (- 2))
   \<and> map_option CashRegister.difference
       (getCurrentRegister numeric_as_number ''u1'' (run no_registers (take 1 day))) = Some None"
proof -
  from optional_balances [where numeric_out = numeric_as_number and d = "run no_registers exact_day"
                            and raw = JNull and q = 0 and s = "[]", THEN conjunct2, THEN conjunct2,
                            THEN conjunct2, THEN conjunct2, THEN conjunct1]
       history_of_days(1)
  have "map CashRegister.difference (getHistory numeric_as_number (run no_registers exact_day)) = [None]"
    by (auto simp: map_eq_Cons_conv column_def numeric_as_number_def optional_number_def)
  moreover
  from optional_balances [where numeric_out = numeric_as_number and d = "run no_registers day"
                            and raw = JNull and q = 0 and s = "[]", THEN conjunct2, THEN conjunct2,
                            THEN conjunct2, THEN conjunct2, THEN conjunct1]
       history_of_days(2)
  have "map CashRegister.difference (getHistory numeric_as_number (run no_registers day))
       = [Some (Fin (- 2))]"
    by (auto simp: map_eq_Cons_conv column_def numeric_as_number_def optional_number_def)
  moreover
  from optional_balances [where raw = "JNum (Fin (- 2))", THEN conjunct2, THEN conjunct1]
  have "optional_number (JNum (Fin (- 2))) = Some (Fin (- 2))"
    by (simp add: falsy_def)
  moreover
  have "map_option CashRegister.difference
       (getCurrentRegister numeric_as_number ''u1'' (run no_registers (take 1 day))) = Some None"
  proof -
    from current_after_first_open(1) obtain reg where
      reg: "getCurrentRegister numeric_as_number ''u1'' (run no_registers (take 1 day)) = Some reg"
      by auto
    from optional_balances [where numeric_out = numeric_as_number and u = "''u1''"
                              and d = "run no_registers (take 1 day)" and reg = reg,
                            THEN conjunct2, THEN conjunct2, THEN conjunct2, THEN conjunct2,
                            THEN conjunct2] reg
    obtain r where r: "r \<in> set (open_registers ''u1'' (run no_registers (take 1 day)))"
      and d: "CashRegister.difference reg
               = optional_number (column numeric_as_number (cash_register_row.difference r))"
      by blast
    from r current_after_first_open(2) have "cash_register_row.difference r = None"
      by (auto simp: map_eq_Cons_conv)
    with d have "CashRegister.difference reg = None"
      by (simp add: column_def optional_number_def)
    with reg show ?thesis by simp
  qed
  ultimately show ?thesis by simp
qed

text \<open>
  Claim C4 does not hold of the code. For a body whose price is -5, \<open>validateProductData\<close>
  answers invalid price; the create handler returns 400 with that reason and leaves the
  store unchanged; the update handler does not call the validation at all: it answers 200
  and the product row now holds the price -5.
\<close>

theorem update_handler_skips_validation:
  "validateProductData negative_price_body = \<lparr>isValid = False, error = Some InvalidPrice\<rparr>
   \<and> InventoryController_createProduct ''p2'' negative_price_body after_create
       = (Response 400 (ValidationFailed (Some InvalidPrice)), after_create)
   \<and> map product_row.price (products after_create) = [JNum (Fin 20)]
   \<and> fst (InventoryController_updateProduct ''p1'' negative_price_body after_create)
       = Response 200 Updated
   \<and> map product_row.price
        (products (snd (InventoryController_updateProduct ''p1'' negative_price_body after_create)))
       = [JNum (Fin (- 5))]"
  by code_simp

text \<open>The two answers to the same body, read off the theorem.\<close>

theorem update_handler_skips_validation_witness:
  "error (validateProductData negative_price_body) = Some InvalidPrice
   \<and> fst (InventoryController_createProduct ''p2'' negative_price_body after_create)
       = Response 400 (ValidationFailed (Some InvalidPrice))
   \<and> fst (InventoryController_updateProduct ''p1'' negative_price_body after_create)
       = Response 200 Updated"
  using update_handler_skips_validation by simp

end
